theory Spec2Isabelle
  imports Complex_Main "HOL-Library.Log_Nat"
begin

chapter \<open>The exam generator: distribution of questions, cloze cards, exam modes\<close>

text \<open>
  A shallow embedding of the functions of the application that carry its logic:
  \<open>getQuestionCountsPerDocument\<close> and \<open>evaluateOpenAnswer\<close> (services/geminiService.ts),
  \<open>createPDFLink\<close> (ExamTestMode, ExamClozeMode, ExamOpenMode), \<open>getParsedContent\<close>
  (ExamClozeMode), \<open>handleSubmit\<close> and the grade (ExamTestMode), \<open>handleCheck\<close>
  (ExamOpenMode) and \<open>handleRestart\<close> (App). The definitions come first, in the order of
  their dependencies, then the properties.
\<close>

section \<open>JavaScript numbers\<close>

text \<open>
  The counts and grades of the program are JavaScript numbers, that is IEEE 754 doubles:
  NaN (from \<open>0 / 0\<close>), the two infinities and the finite values. A finite value is the
  rational number the double stands for. The sign of zero is left out: every divisor of the
  program is a sum that starts at \<open>+0\<close> or an array length, so a zero divisor is \<open>+0\<close>.
\<close>

datatype jsnum = NaN | NegInf | Fin rat | PosInf

text \<open>
  The result of an arithmetic operation is the exact result rounded to the nearest double,
  a tie going to the even significand, and an infinity when the rounded value reaches
  \<open>2 ^ 1024\<close>. A double has a significand of 53 bits and an exponent of at least -1074:
  \<open>nearest x\<close> rounds \<open>x\<close> to a multiple of \<open>2 powi e\<close>, where \<open>e\<close> is 52 below the binary
  exponent of \<open>x\<close> (\<open>ilog2\<close>, the floor of the binary logarithm of a positive rational) and
  not below -1074.
\<close>

definition roundHalfEven :: "rat \<Rightarrow> int" where
  "roundHalfEven x =
     (let f = \<lfloor>x\<rfloor>; d = x - of_int f
      in if d < 1 / 2 then f else if 1 / 2 < d then f + 1 else if even f then f else f + 1)"

definition ilog2 :: "rat \<Rightarrow> int" where
  "ilog2 x =
     (let k = bitlen (fst (quotient_of x)) - bitlen (snd (quotient_of x))
      in if 2 powi k \<le> x then k else k - 1)"

definition nearest :: "rat \<Rightarrow> rat" where
  "nearest x =
     (if x = 0 then 0
      else (let e = max (ilog2 \<bar>x\<bar> - 52) (- 1074)
            in sgn x * of_int (roundHalfEven (\<bar>x\<bar> / 2 powi e)) * 2 powi e))"

definition overflowBound :: rat where
  "overflowBound = 2 ^ 1024"

definition toDouble :: "rat \<Rightarrow> jsnum" where
  "toDouble x =
     (let y = nearest x
      in if overflowBound \<le> y then PosInf else if y \<le> - overflowBound then NegInf else Fin y)"

fun jsNeg :: "jsnum \<Rightarrow> jsnum" where
  "jsNeg NaN = NaN"
| "jsNeg NegInf = PosInf"
| "jsNeg (Fin x) = Fin (- x)"
| "jsNeg PosInf = NegInf"

fun jsAdd :: "jsnum \<Rightarrow> jsnum \<Rightarrow> jsnum" where
  "jsAdd (Fin x) (Fin y) = toDouble (x + y)"
| "jsAdd NaN y = NaN"
| "jsAdd x NaN = NaN"
| "jsAdd PosInf NegInf = NaN"
| "jsAdd NegInf PosInf = NaN"
| "jsAdd PosInf y = PosInf"
| "jsAdd x PosInf = PosInf"
| "jsAdd NegInf y = NegInf"
| "jsAdd x NegInf = NegInf"

definition jsSub :: "jsnum \<Rightarrow> jsnum \<Rightarrow> jsnum" where
  "jsSub x y = jsAdd x (jsNeg y)"

text \<open>\<open>infTimes pos y\<close> is the product of an infinity (positive when \<open>pos\<close>) and \<open>y\<close>.\<close>

fun infTimes :: "bool \<Rightarrow> jsnum \<Rightarrow> jsnum" where
  "infTimes pos NaN = NaN"
| "infTimes pos (Fin y) = (if y = 0 then NaN else if (0 < y) = pos then PosInf else NegInf)"
| "infTimes pos PosInf = (if pos then PosInf else NegInf)"
| "infTimes pos NegInf = (if pos then NegInf else PosInf)"

fun jsMul :: "jsnum \<Rightarrow> jsnum \<Rightarrow> jsnum" where
  "jsMul (Fin x) (Fin y) = toDouble (x * y)"
| "jsMul NaN y = NaN"
| "jsMul x NaN = NaN"
| "jsMul PosInf y = infTimes True y"
| "jsMul NegInf y = infTimes False y"
| "jsMul x PosInf = infTimes True x"
| "jsMul x NegInf = infTimes False x"

fun jsDiv :: "jsnum \<Rightarrow> jsnum \<Rightarrow> jsnum" where
  "jsDiv (Fin x) (Fin y) =
     (if y = 0 then (if x = 0 then NaN else if 0 < x then PosInf else NegInf)
      else toDouble (x / y))"
| "jsDiv NaN y = NaN"
| "jsDiv x NaN = NaN"
| "jsDiv (Fin x) y = Fin 0"
| "jsDiv x (Fin y) = (if (x = PosInf) = (0 \<le> y) then PosInf else NegInf)"
| "jsDiv x y = NaN"

text \<open>
  \<open>Math.round\<close>: the nearest integer, a tie going up. The integer nearest to a double is a
  double, so nothing is rounded again; \<open>Math.max\<close> and the unary minus do not round either.
\<close>

fun mathRound :: "jsnum \<Rightarrow> jsnum" where
  "mathRound (Fin x) = Fin (of_int \<lfloor>x + 1 / 2\<rfloor>)"
| "mathRound x = x"

fun mathMax :: "jsnum \<Rightarrow> jsnum \<Rightarrow> jsnum" where
  "mathMax (Fin x) (Fin y) = Fin (max x y)"
| "mathMax NaN y = NaN"
| "mathMax x NaN = NaN"
| "mathMax PosInf y = PosInf"
| "mathMax x PosInf = PosInf"
| "mathMax NegInf y = y"
| "mathMax x NegInf = x"

text \<open>\<open>x >= y\<close>: false as soon as one side is NaN.\<close>

fun jsGe :: "jsnum \<Rightarrow> jsnum \<Rightarrow> bool" where
  "jsGe (Fin x) (Fin y) = (y \<le> x)"
| "jsGe NaN y = False"
| "jsGe x NaN = False"
| "jsGe PosInf y = True"
| "jsGe x NegInf = True"
| "jsGe x y = False"

section \<open>Strings\<close>

text \<open>
  A JavaScript string is a sequence of UTF-16 code units; the model has the code units
  below 256 (\<open>char\<close>), which hold the markers of the corpus and the accented letters of
  the texts of the program (\<open>CHR 0xE1\<close> is the a with an acute accent). The white space of
  that range is TAB, LF, VT, FF, CR, the space and the no-break space. \<open>toLowerCase\<close> maps
  the capital letters of that range (A to Z, and 0xC0 to 0xDE but for the multiplication
  sign 0xD7) to their small letters, which are in the range too. \<open>Canonicalize\<close> is the
  case folding of a pattern with the \<open>i\<close> flag, character by character through
  \<open>toUpperCase\<close>; the three small letters of the range whose capital is not one code unit
  of the range (0xB5, 0xDF, 0xFF) are kept as they are, which changes no comparison between
  two characters of the range.
\<close>

definition isWhiteSpace :: "char \<Rightarrow> bool" where
  "isWhiteSpace c =
     (c \<in> set [CHR 0x09, CHR 0x0A, CHR 0x0B, CHR 0x0C, CHR 0x0D, CHR 0x20, CHR 0xA0])"

definition trim :: "string \<Rightarrow> string" where
  "trim s = rev (dropWhile isWhiteSpace (rev (dropWhile isWhiteSpace s)))"

definition lowerChar :: "char \<Rightarrow> char" where
  "lowerChar c =
     (let n = (of_char c :: nat)
      in if (65 \<le> n \<and> n \<le> 90) \<or> (192 \<le> n \<and> n \<le> 222 \<and> n \<noteq> 215)
         then char_of (n + 32) else c)"

definition toLowerCase :: "string \<Rightarrow> string" where
  "toLowerCase s = map lowerChar s"

definition canonicalize :: "char \<Rightarrow> char" where
  "canonicalize c =
     (let n = (of_char c :: nat)
      in if (97 \<le> n \<and> n \<le> 122) \<or> (224 \<le> n \<and> n \<le> 254 \<and> n \<noteq> 247)
         then char_of (n - 32) else c)"

section \<open>Regular expressions of the program\<close>

text \<open>
  Each regular expression of the program is modelled by the function that follows the
  backtracking matcher on it: a literal is matched by \<open>matchLiteral\<close>, a lazy \<open>.*?\<close> by
  \<open>lazyDot\<close> (one more character each time the rest of the pattern fails), a lazy
  \<open>[\s\S]*?\<close> in front of the end marker by \<open>lazyBody\<close>. The line terminators of the
  range are LF and CR.
\<close>

definition isLineTerminator :: "char \<Rightarrow> bool" where
  "isLineTerminator c = (c \<in> set [CHR 0x0A, CHR 0x0D])"

definition isDigit :: "char \<Rightarrow> bool" where
  "isDigit c = (c \<in> set ''0123456789'')"

fun matchLiteral :: "string \<Rightarrow> string \<Rightarrow> string option" where
  "matchLiteral [] s = Some s"
| "matchLiteral (p # ps) [] = None"
| "matchLiteral (p # ps) (c # cs) = (if p = c then matchLiteral ps cs else None)"

text \<open>
  \<open>lazyDot k name s\<close>: the group \<open>(.*?)\<close> has matched \<open>name\<close> so far and \<open>s\<close> is the
  input left; \<open>k\<close> is the matcher of the rest of the pattern. The dot does not match a
  line terminator.
\<close>

fun lazyDot :: "(string \<Rightarrow> 'a option) \<Rightarrow> string \<Rightarrow> string \<Rightarrow> (string \<times> 'a) option" where
  "lazyDot k name [] = (case k [] of Some r \<Rightarrow> Some (name, r) | None \<Rightarrow> None)"
| "lazyDot k name (c # cs) =
     (case k (c # cs) of
        Some r \<Rightarrow> Some (name, r)
      | None \<Rightarrow> if isLineTerminator c then None else lazyDot k (name @ [c]) cs)"

definition endMarker :: string where
  "endMarker = CHR 0x0A # ''--- Fin del documento ---''"

text \<open>
  \<open>lazyBody body s\<close>: the group \<open>([\s\S]*?)\<close> has matched \<open>body\<close>; the result is the body
  and the input after the end marker.
\<close>

fun lazyBody :: "string \<Rightarrow> string \<Rightarrow> (string \<times> string) option" where
  "lazyBody body [] = (case matchLiteral endMarker [] of Some r \<Rightarrow> Some (body, r) | None \<Rightarrow> None)"
| "lazyBody body (c # cs) =
     (case matchLiteral endMarker (c # cs) of
        Some r \<Rightarrow> Some (body, r)
      | None \<Rightarrow> lazyBody (body @ [c]) cs)"

text \<open>
  The rest of \<open>docRegex\<close> after the name: the literal \<open> | Paginas: \<close> (with the accent),
  \<open>(\d+)\<close>, the literal \<open> ---\<close> and a line feed, \<open>([\s\S]*?)\<close> and the end marker. The
  greedy \<open>\d+\<close> takes the whole run of digits: the space that follows it in the pattern is
  not a digit, so no shorter run can match. The result is the digits and the body, and the
  input after the match.
\<close>

definition docRegexTail :: "string \<Rightarrow> ((string \<times> string) \<times> string) option" where
  "docRegexTail s =
     (case matchLiteral ('' | P'' @ [CHR 0xE1] @ ''ginas: '') s of
        None \<Rightarrow> None
      | Some s1 \<Rightarrow>
          if takeWhile isDigit s1 = [] then None
          else (case matchLiteral ('' ---'' @ [CHR 0x0A]) (dropWhile isDigit s1) of
                  None \<Rightarrow> None
                | Some s2 \<Rightarrow>
                    (case lazyBody [] s2 of
                       None \<Rightarrow> None
                     | Some (body, rest) \<Rightarrow> Some ((takeWhile isDigit s1, body), rest))))"

text \<open>
  The rest of \<open>oldDocRegex\<close> after the name: the literal \<open> ---\<close> and a line feed,
  \<open>([\s\S]*?)\<close> and the end marker.
\<close>

definition oldDocRegexTail :: "string \<Rightarrow> (string \<times> string) option" where
  "oldDocRegexTail s =
     (case matchLiteral ('' ---'' @ [CHR 0x0A]) s of
        None \<Rightarrow> None
      | Some s2 \<Rightarrow> lazyBody [] s2)"

definition startMarker :: string where
  "startMarker = ''--- Inicio del documento: ''"

text \<open>A match of the whole pattern that starts at the head of the input.\<close>

definition docRegexAt :: "string \<Rightarrow> (string \<times> (string \<times> string) \<times> string) option" where
  "docRegexAt s =
     (case matchLiteral startMarker s of
        None \<Rightarrow> None
      | Some s0 \<Rightarrow> lazyDot docRegexTail [] s0)"

definition oldDocRegexAt :: "string \<Rightarrow> (string \<times> string \<times> string) option" where
  "oldDocRegexAt s =
     (case matchLiteral startMarker s of
        None \<Rightarrow> None
      | Some s0 \<Rightarrow> lazyDot oldDocRegexTail [] s0)"

text \<open>
  \<open>exec\<close> of a global pattern: the leftmost match at or after \<open>lastIndex\<close>. The argument is
  the input from \<open>lastIndex\<close> on.
\<close>

fun docRegexExec :: "string \<Rightarrow> (string \<times> (string \<times> string) \<times> string) option" where
  "docRegexExec [] = docRegexAt []"
| "docRegexExec (c # cs) =
     (case docRegexAt (c # cs) of Some m \<Rightarrow> Some m | None \<Rightarrow> docRegexExec cs)"

fun oldDocRegexExec :: "string \<Rightarrow> (string \<times> string \<times> string) option" where
  "oldDocRegexExec [] = oldDocRegexAt []"
| "oldDocRegexExec (c # cs) =
     (case oldDocRegexAt (c # cs) of Some m \<Rightarrow> Some m | None \<Rightarrow> oldDocRegexExec cs)"

text \<open>
  \<open>parseInt(digits, 10)\<close> on a run of decimal digits: the number value of the integer the
  digits denote (\<open>mathInt\<close>), so a count of 2 ^ 53 or more is rounded and one of about
  1.8e308 or more is \<open>Infinity\<close>. (Past 20 significant digits the language lets an
  implementation replace the later digits by 0 before it rounds; the model rounds the integer
  itself.)
\<close>

definition digitValue :: "char \<Rightarrow> nat" where
  "digitValue c = of_char c - 48"

definition mathInt :: "string \<Rightarrow> nat" where
  "mathInt ds = foldl (\<lambda>n d. 10 * n + digitValue d) 0 ds"

definition parseInt :: "string \<Rightarrow> jsnum" where
  "parseInt ds = toDouble (of_nat (mathInt ds))"

lemma matchLiteral_length:
  "matchLiteral p s = Some r \<Longrightarrow> length s = length p + length r"
  by (induction p s rule: matchLiteral.induct) (auto split: if_splits)

lemma lazyBody_length: "lazyBody body s = Some (b, r) \<Longrightarrow> length r < length s"
proof (induction body s rule: lazyBody.induct)
  case (1 body)
  then show ?case by (simp add: endMarker_def)
next
  case (2 body c cs)
  show ?case
  proof (cases "matchLiteral endMarker (c # cs)")
    case None
    with 2 show ?thesis by fastforce
  next
    case (Some r')
    with "2.prems" have "r' = r" by simp
    with Some show ?thesis
      using matchLiteral_length [of endMarker "c # cs" r] by (simp add: endMarker_def)
  qed
qed

lemma lazyDot_length:
  assumes k: "\<And>t x r. k t = Some (x, r) \<Longrightarrow> length r < length t"
  shows "lazyDot k name s = Some (n, x, r) \<Longrightarrow> length r < length s"
proof (induction s arbitrary: name)
  case Nil
  then have "k [] = Some (x, r)" by (simp split: option.splits)
  from k [OF this] show ?case by simp
next
  case (Cons c cs)
  show ?case
  proof (cases "k (c # cs)")
    case (Some y)
    with Cons.prems have "k (c # cs) = Some (x, r)" by simp
    from k [OF this] show ?thesis .
  next
    case None
    with Cons.prems have "lazyDot k (name @ [c]) cs = Some (n, x, r)"
      by (simp split: if_splits)
    from Cons.IH [OF this] show ?thesis by simp
  qed
qed

lemma docRegexTail_length: "docRegexTail t = Some (x, r) \<Longrightarrow> length r < length t"
proof -
  assume a: "docRegexTail t = Some (x, r)"
  then obtain s1 where s1: "matchLiteral ('' | P'' @ [CHR 0xE1] @ ''ginas: '') t = Some s1"
    by (auto simp: docRegexTail_def split: option.splits)
  with a obtain s2 where s2: "matchLiteral ('' ---'' @ [CHR 0x0A]) (dropWhile isDigit s1) = Some s2"
    by (auto simp: docRegexTail_def split: option.splits if_splits)
  with a s1 obtain b where b: "lazyBody [] s2 = Some (b, r)"
    by (auto simp: docRegexTail_def split: option.splits if_splits)
  have "length s1 \<le> length t" using matchLiteral_length [OF s1] by simp
  moreover have "length s2 \<le> length (dropWhile isDigit s1)"
    using matchLiteral_length [OF s2] by simp
  moreover have "length (dropWhile isDigit s1) \<le> length s1" by (rule length_dropWhile_le)
  moreover have "length r < length s2" by (rule lazyBody_length [OF b])
  ultimately show ?thesis by linarith
qed

lemma oldDocRegexTail_length: "oldDocRegexTail t = Some (x, r) \<Longrightarrow> length r < length t"
proof -
  assume a: "oldDocRegexTail t = Some (x, r)"
  then obtain s2 where s2: "matchLiteral ('' ---'' @ [CHR 0x0A]) t = Some s2"
    by (auto simp: oldDocRegexTail_def split: option.splits)
  with a have b: "lazyBody [] s2 = Some (x, r)" by (simp add: oldDocRegexTail_def)
  have "length s2 \<le> length t" using matchLiteral_length [OF s2] by simp
  moreover have "length r < length s2" by (rule lazyBody_length [OF b])
  ultimately show ?thesis by linarith
qed

lemma docRegexAt_length: "docRegexAt s = Some (n, x, r) \<Longrightarrow> length r < length s"
proof -
  assume a: "docRegexAt s = Some (n, x, r)"
  then obtain s0 where s0: "matchLiteral startMarker s = Some s0"
    by (auto simp: docRegexAt_def split: option.splits)
  with a have "lazyDot docRegexTail [] s0 = Some (n, x, r)" by (simp add: docRegexAt_def)
  then have "length r < length s0"
    by (rule lazyDot_length [rotated]) (auto dest: docRegexTail_length)
  moreover have "length s0 \<le> length s" using matchLiteral_length [OF s0] by simp
  ultimately show ?thesis by linarith
qed

lemma oldDocRegexAt_length: "oldDocRegexAt s = Some (n, b, r) \<Longrightarrow> length r < length s"
proof -
  assume a: "oldDocRegexAt s = Some (n, b, r)"
  then obtain s0 where s0: "matchLiteral startMarker s = Some s0"
    by (auto simp: oldDocRegexAt_def split: option.splits)
  with a have "lazyDot oldDocRegexTail [] s0 = Some (n, b, r)" by (simp add: oldDocRegexAt_def)
  then have "length r < length s0"
    by (rule lazyDot_length [rotated]) (auto dest: oldDocRegexTail_length)
  moreover have "length s0 \<le> length s" using matchLiteral_length [OF s0] by simp
  ultimately show ?thesis by linarith
qed

lemma docRegexExec_length: "docRegexExec s = Some (n, x, r) \<Longrightarrow> length r < length s"
proof (induction s)
  case Nil
  then show ?case by (auto dest: docRegexAt_length)
next
  case (Cons c cs)
  then show ?case by (fastforce split: option.splits dest: docRegexAt_length)
qed

lemma oldDocRegexExec_length: "oldDocRegexExec s = Some (n, b, r) \<Longrightarrow> length r < length s"
proof (induction s)
  case Nil
  then show ?case by (auto dest: oldDocRegexAt_length)
next
  case (Cons c cs)
  then show ?case by (fastforce split: option.splits dest: oldDocRegexAt_length)
qed

section \<open>The distribution of the questions over the documents\<close>

text \<open>
  The two \<open>while\<close> loops of \<open>getQuestionCountsPerDocument\<close>: each turn calls \<open>exec\<close>, which
  goes on from the end of the match before. The first argument is the text from
  \<open>lastIndex\<close> on; a document is the pair of its name and its weight (\<open>pages\<close> in the first
  loop, \<open>length\<close> in the second). The loops return the documents and the total weight.
\<close>

function whileDocRegex ::
  "string \<Rightarrow> (string \<times> jsnum) list \<Rightarrow> jsnum \<Rightarrow> (string \<times> jsnum) list \<times> jsnum" where
  "whileDocRegex s docs totalPages =
     (case docRegexExec s of
        None \<Rightarrow> (docs, totalPages)
      | Some (name, (digits, body), rest) \<Rightarrow>
          whileDocRegex rest (docs @ [(name, parseInt digits)]) (jsAdd totalPages (parseInt digits)))"
  by pat_completeness auto
termination
  by (relation "measure (\<lambda>(s, docs, totalPages). length s)") (auto dest: docRegexExec_length)

function whileOldDocRegex ::
  "string \<Rightarrow> (string \<times> jsnum) list \<Rightarrow> jsnum \<Rightarrow> (string \<times> jsnum) list \<times> jsnum" where
  "whileOldDocRegex s oldDocs totalLength =
     (case oldDocRegexExec s of
        None \<Rightarrow> (oldDocs, totalLength)
      | Some (name, body, rest) \<Rightarrow>
          whileOldDocRegex rest (oldDocs @ [(name, Fin (of_nat (length body)))])
            (jsAdd totalLength (Fin (of_nat (length body)))))"
  by pat_completeness auto
termination
  by (relation "measure (\<lambda>(s, oldDocs, totalLength). length s)") (auto dest: oldDocRegexExec_length)

declare whileDocRegex.simps [simp del] whileOldDocRegex.simps [simp del]

record entry =
  docName :: string
  count :: jsnum

text \<open>
  The callback of \<open>docs.forEach\<close> (and of \<open>oldDocs.forEach\<close>, which is the same code on
  \<open>doc.length\<close> and \<open>totalLength\<close>), with the two variables it updates, \<open>distributedCount\<close>
  and \<open>result\<close>, passed along.
\<close>

fun forEachDoc ::
  "nat \<Rightarrow> jsnum \<Rightarrow> jsnum \<Rightarrow> nat \<Rightarrow> jsnum \<Rightarrow> entry list \<Rightarrow> (string \<times> jsnum) list \<Rightarrow> entry list" where
  "forEachDoc docsLength totalPages totalQuestions index distributedCount result [] = result"
| "forEachDoc docsLength totalPages totalQuestions index distributedCount result ((name, pages) # docs) =
     (let count =
        (if int index = int docsLength - 1 then jsSub totalQuestions distributedCount
         else (let c = mathRound (jsMul (jsDiv pages totalPages) totalQuestions)
               in if c = Fin 0 \<and> jsGe totalQuestions (Fin (of_nat docsLength)) then Fin 1 else c))
      in forEachDoc docsLength totalPages totalQuestions (index + 1) (jsAdd distributedCount count)
           (result @ [\<lparr>docName = name, count = count\<rparr>]) docs)"

definition getQuestionCountsPerDocument :: "string \<Rightarrow> jsnum \<Rightarrow> entry list" where
  "getQuestionCountsPerDocument text totalQuestions =
     (case whileDocRegex text [] (Fin 0) of
        (docs, totalPages) \<Rightarrow>
          if length docs = 0 then
            (case whileOldDocRegex text [] (Fin 0) of
               (oldDocs, totalLength) \<Rightarrow>
                 if length oldDocs \<le> 1 then []
                 else forEachDoc (length oldDocs) totalLength totalQuestions 0 (Fin 0) [] oldDocs)
          else if length docs \<le> 1 then []
          else forEachDoc (length docs) totalPages totalQuestions 0 (Fin 0) [] docs)"

text \<open>The text that \<open>extractTextFromPDFs\<close> writes for one file (the corpus wire format).\<close>

definition documentText :: "string \<Rightarrow> string \<Rightarrow> string \<Rightarrow> string" where
  "documentText fileName numPages fileText =
     ''--- Inicio del documento: '' @ fileName @ '' | P'' @ [CHR 0xE1] @ ''ginas: '' @ numPages
       @ '' ---'' @ [CHR 0x0A] @ fileText @ [CHR 0x0A] @ ''--- Fin del documento ---''
       @ [CHR 0x0A, CHR 0x0A]"

text \<open>
  The documents the parser finds in a corpus: the matches of the pattern with the page
  count, or those of the older pattern when the first finds none.
\<close>

definition parsedDocuments :: "string \<Rightarrow> (string \<times> jsnum) list" where
  "parsedDocuments text =
     (if fst (whileDocRegex text [] (Fin 0)) = [] then fst (whileOldDocRegex text [] (Fin 0))
      else fst (whileDocRegex text [] (Fin 0)))"

text \<open>The total weight that the loop adds up for these documents, from the first on.\<close>

definition totalWeight :: "(string \<times> jsnum) list \<Rightarrow> jsnum" where
  "totalWeight docs = foldl jsAdd (Fin 0) (map snd docs)"

text \<open>The count that one call of the callback gives its document.\<close>

definition callbackCount :: "nat \<Rightarrow> jsnum \<Rightarrow> jsnum \<Rightarrow> nat \<Rightarrow> jsnum \<Rightarrow> jsnum \<Rightarrow> jsnum" where
  "callbackCount docsLength totalPages totalQuestions index distributedCount pages =
     (if int index = int docsLength - 1 then jsSub totalQuestions distributedCount
      else (let c = mathRound (jsMul (jsDiv pages totalPages) totalQuestions)
            in if c = Fin 0 \<and> jsGe totalQuestions (Fin (of_nat docsLength)) then Fin 1 else c))"

section \<open>The evaluation request of the open mode\<close>

datatype Benevolence = STRICT | NORMAL | BENEVOLENT

datatype error = ApiKeyMissing | CallFailed

text \<open>
  The argument of \<open>ai.models.generateContent\<close>. Its \<open>config.responseSchema\<close> is the
  same object in every call and is left out.
\<close>

record GenerateContentRequest =
  model :: string
  contents :: string
  responseMimeType :: string

text \<open>The object that \<open>evaluateOpenAnswer\<close> returns.\<close>

record Evaluation =
  score :: jsnum
  feedback :: string

text \<open>The \<open>switch\<close> on the benevolence level: \<open>NORMAL\<close> and the default share a branch.\<close>

fun benevolenceInstruction :: "Benevolence \<Rightarrow> string" where
  "benevolenceInstruction STRICT =
     ''CRITERIOS DE EVALUACI'' @ [CHR 0xD3] @ ''N: S'' @ [CHR 0xE9] @ '' ESTRICTO. ''
       @ ''La respuesta debe ser precisa y completa. ''
       @ ''Penaliza imprecisiones o falta de detalle clave. Si es vaga, marca 0.''"
| "benevolenceInstruction BENEVOLENT =
     ''CRITERIOS DE EVALUACI'' @ [CHR 0xD3] @ ''N: S'' @ [CHR 0xE9] @ '' MUY BENEVOLENTE. ''
       @ ''Si la respuesta tiene CUALQUIER relaci'' @ [CHR 0xF3] @ ''n con la correcta ''
       @ ''o demuestra una m'' @ [CHR 0xED] @ ''nima comprensi'' @ [CHR 0xF3] @ ''n, marca 1. ''
       @ ''Ignora errores de expresi'' @ [CHR 0xF3] @ ''n.''"
| "benevolenceInstruction NORMAL =
     ''CRITERIOS DE EVALUACI'' @ [CHR 0xD3] @ ''N: S'' @ [CHR 0xE9] @ '' FLEXIBLE pero RAZONABLE. ''
       @ ''Si captura la idea principal, marca 1. ''
       @ ''Si es claramente incorrecta o irrelevante, marca 0.''"

text \<open>The template of the prompt, line by line (\<open>CHR 0x0A\<close> ends a line).\<close>

definition evaluationPrompt :: "string \<Rightarrow> string \<Rightarrow> string \<Rightarrow> string \<Rightarrow> string" where
  "evaluationPrompt question modelAnswer userAnswer instruction =
     [CHR 0x0A]
       @ ''        Act'' @ [CHR 0xFA] @ ''a como un profesor evaluando una respuesta de examen.''
       @ [CHR 0x0A]
       @ ''        Eval'' @ [CHR 0xFA] @ ''a la respuesta del usuario frente a la respuesta modelo ''
       @ ''para la pregunta dada.'' @ [CHR 0x0A]
       @ ''        Responde SIEMPRE en JSON y en ESPA'' @ [CHR 0xD1] @ ''OL.'' @ [CHR 0x0A]
       @ ''        '' @ [CHR 0x0A]
       @ ''        Pregunta: '' @ question @ [CHR 0x0A]
       @ ''        Respuesta Modelo: '' @ modelAnswer @ [CHR 0x0A]
       @ ''        Respuesta Usuario: '' @ userAnswer @ [CHR 0x0A]
       @ [CHR 0x0A]
       @ ''        El '' @ [CHR 0x27] @ ''score'' @ [CHR 0x27] @ '' debe ser 1 si es ''
       @ ''correcta/suficiente, 0 si es incorrecta/insuficiente.'' @ [CHR 0x0A]
       @ ''        '' @ [CHR 0x27] @ ''feedback'' @ [CHR 0x27] @ '' debe ser una breve explicaci''
       @ [CHR 0xF3] @ ''n en espa'' @ [CHR 0xF1] @ ''ol.'' @ [CHR 0x0A]
       @ ''        '' @ [CHR 0x0A]
       @ ''        '' @ instruction @ [CHR 0x0A]
       @ ''    ''"

text \<open>
  The request that \<open>evaluateOpenAnswer\<close> builds. The fourth parameter has the default
  value \<open>'NORMAL'\<close>: \<open>None\<close> is a call that leaves the argument out.
\<close>

definition evaluateOpenAnswerRequest ::
  "string \<Rightarrow> string \<Rightarrow> string \<Rightarrow> Benevolence option \<Rightarrow> GenerateContentRequest" where
  "evaluateOpenAnswerRequest question modelAnswer userAnswer benevolence =
     \<lparr>model = ''gemini-2.5-flash'',
      contents = evaluationPrompt question modelAnswer userAnswer
        (benevolenceInstruction (case benevolence of None \<Rightarrow> NORMAL | Some b \<Rightarrow> b)),
      responseMimeType = ''application/json''\<rparr>"

text \<open>
  \<open>evaluateOpenAnswer\<close>: \<open>getAiClient\<close> throws when the key is missing or empty, before
  any request; otherwise the request goes to the service. \<open>service\<close> stands for the
  external model and the parsing of its answer: the evaluation it gives for a request, or
  \<open>None\<close> when the call or the parsing throws. The result comes with the requests sent.
\<close>

definition evaluateOpenAnswer ::
  "string option \<Rightarrow> (GenerateContentRequest \<Rightarrow> Evaluation option) \<Rightarrow>
   string \<Rightarrow> string \<Rightarrow> string \<Rightarrow> Benevolence option \<Rightarrow>
   (error + Evaluation) \<times> GenerateContentRequest list" where
  "evaluateOpenAnswer apiKey service question modelAnswer userAnswer benevolence =
     (if apiKey = None \<or> apiKey = Some [] then (Inl ApiKeyMissing, [])
      else (let request = evaluateOpenAnswerRequest question modelAnswer userAnswer benevolence
            in (case service request of
                  None \<Rightarrow> (Inl CallFailed, [request])
                | Some result \<Rightarrow> (Inr result, [request]))))"

section \<open>Links from a source attribution to an uploaded file\<close>

text \<open>A \<open>File\<close> of the browser, by its name and its bytes.\<close>

record File =
  fileName :: string
  bytes :: string

text \<open>The object that \<open>createPDFLink\<close> returns (\<open>url: null\<close> is \<open>None\<close>).\<close>

record PDFLink =
  url :: "string option"
  display :: string

text \<open>
  The pattern of a source attribution is \<open>^(.+?)\s*\(Pag\.\s*(\d+)\)$\<close> (with an acute
  accent on the a). This is the rest of it after the name. Each greedy run (\<open>\s*\<close>,
  \<open>\d+\<close>) is followed in the pattern by a character that is not of its class, so only the
  whole run of the input can match. The result is the digits; the input must end after the
  parenthesis.
\<close>

definition sourceRegexTail :: "string \<Rightarrow> (string \<times> unit) option" where
  "sourceRegexTail s =
     (case matchLiteral (''(P'' @ [CHR 0xE1] @ ''g.'') (dropWhile isWhiteSpace s) of
        None \<Rightarrow> None
      | Some s2 \<Rightarrow>
          if takeWhile isDigit (dropWhile isWhiteSpace s2) \<noteq> []
             \<and> dropWhile isDigit (dropWhile isWhiteSpace s2) = '')''
          then Some (takeWhile isDigit (dropWhile isWhiteSpace s2), ())
          else None)"

text \<open>
  \<open>sourceFile.match(...)\<close>: the pattern starts at the head of the string; \<open>(.+?)\<close> takes
  one character that is not a line terminator and then goes on as a lazy \<open>.*?\<close>. The
  result is the pair of the two groups, \<open>filename\<close> and \<open>pageNum\<close>.
\<close>

definition sourceFileMatch :: "string \<Rightarrow> (string \<times> string) option" where
  "sourceFileMatch s =
     (case s of
        [] \<Rightarrow> None
      | c # cs \<Rightarrow>
          if isLineTerminator c then None
          else (case lazyDot sourceRegexTail [c] cs of
                  None \<Rightarrow> None
                | Some (filename, pageNum, u) \<Rightarrow> Some (filename, pageNum)))"

text \<open>
  \<open>key.replace(/\.[^.]+$/, '')\<close>: the first dot that has at least one character after it
  and no dot after it starts the match, which runs to the end of the string.
\<close>

fun replaceExtension :: "string \<Rightarrow> string" where
  "replaceExtension [] = []"
| "replaceExtension (c # cs) =
     (if c = CHR ''.'' \<and> cs \<noteq> [] \<and> list_all (\<lambda>d. d \<noteq> CHR ''.'') cs then []
      else c # replaceExtension cs)"

text \<open>
  The \<open>for\<close> loop over \<open>uploadedFiles.entries()\<close>, which stops at the first key with the
  base name looked for. A \<open>Map\<close> is the list of its entries in insertion order.
\<close>

fun findByBaseName :: "string \<Rightarrow> (string \<times> File) list \<Rightarrow> File option" where
  "findByBaseName baseNameToFind [] = None"
| "findByBaseName baseNameToFind ((key, v) # entries) =
     (if toLowerCase (replaceExtension key) = baseNameToFind then Some v
      else findByBaseName baseNameToFind entries)"

text \<open>
  \<open>createPDFLink\<close> of \<open>ExamTestMode\<close>; the function of the same name in \<open>ExamClozeMode\<close>
  has the same text. \<open>createObjectURL\<close> stands for \<open>URL.createObjectURL\<close>.
\<close>

definition createPDFLink ::
  "(File \<Rightarrow> string) \<Rightarrow> (string \<times> File) list option \<Rightarrow> string option \<Rightarrow> PDFLink" where
  "createPDFLink createObjectURL uploadedFiles sourceFile =
     (case (uploadedFiles, sourceFile) of
        (Some files, Some source) \<Rightarrow>
          if source = [] then \<lparr>url = None, display = []\<rparr>
          else (case sourceFileMatch source of
                  None \<Rightarrow> \<lparr>url = None, display = source\<rparr>
                | Some (filename, pageNum) \<Rightarrow>
                    (let trimmedFilename = trim filename;
                         file = (case map_of files trimmedFilename of
                                   Some f \<Rightarrow> Some f
                                 | None \<Rightarrow>
                                     findByBaseName
                                       (toLowerCase (replaceExtension trimmedFilename)) files)
                     in (case file of
                           None \<Rightarrow> \<lparr>url = None, display = source\<rparr>
                         | Some f \<Rightarrow>
                             \<lparr>url = Some (createObjectURL f @ ''#page='' @ pageNum),
                              display = source\<rparr>)))
      | (None, Some source) \<Rightarrow> \<lparr>url = None, display = source\<rparr>
      | (u, None) \<Rightarrow> \<lparr>url = None, display = []\<rparr>)"

text \<open>\<open>createPDFLink\<close> of \<open>ExamOpenMode\<close>: the file is looked up by the exact name only.\<close>

definition createPDFLinkOpen ::
  "(File \<Rightarrow> string) \<Rightarrow> (string \<times> File) list option \<Rightarrow> string option \<Rightarrow> PDFLink" where
  "createPDFLinkOpen createObjectURL uploadedFiles sourceFile =
     (case (uploadedFiles, sourceFile) of
        (Some files, Some source) \<Rightarrow>
          if source = [] then \<lparr>url = None, display = []\<rparr>
          else (case sourceFileMatch source of
                  None \<Rightarrow> \<lparr>url = None, display = source\<rparr>
                | Some (filename, pageNum) \<Rightarrow>
                    (case map_of files (trim filename) of
                       None \<Rightarrow> \<lparr>url = None, display = source\<rparr>
                     | Some f \<Rightarrow>
                         \<lparr>url = Some (createObjectURL f @ ''#page='' @ pageNum),
                          display = source\<rparr>))
      | (None, Some source) \<Rightarrow> \<lparr>url = None, display = source\<rparr>
      | (u, None) \<Rightarrow> \<lparr>url = None, display = []\<rparr>)"

section \<open>The types of the application\<close>

datatype ExamType = TEST | CLOZE_FLASHCARD | OPEN_FLASHCARD

datatype Difficulty = EASY | MEDIUM | HARD

record TestQuestion =
  question :: string
  options :: "string list"
  correctIndices :: "int list"
  explanation :: string
  sourceQuote :: string
  sourceFile :: "string option"

record ClozeCard =
  fullText :: string
  hiddenWords :: "string list"
  imagePrompt :: string
  sourceFile :: "string option"

record OpenQuestion =
  question :: string
  modelAnswer :: string
  sourceFile :: "string option"

text \<open>
  The settings of an exam; the field \<open>type\<close> of the source is \<open>examType\<close> here. An
  optional field that is absent is \<open>None\<close>.
\<close>

record ExamSettings =
  examType :: ExamType
  questionCount :: jsnum
  difficulty :: Difficulty
  optionsCount :: "jsnum option"
  allowMultipleCorrect :: "bool option"
  negativeMarking :: "bool option"
  maxClozeBlanks :: "jsnum option"
  autoRead :: "bool option"
  timeLimit :: "jsnum option"
  showSummary :: "bool option"
  showSourceFile :: "bool option"
  benevolence :: "Benevolence option"
  voiceURI :: "string option"

section \<open>The cloze card: hidden words\<close>

text \<open>A part of the parsed content; the field \<open>text\<close> of the source is \<open>text'\<close> here.\<close>

record part =
  text' :: string
  hidden :: bool
  word :: "string option"

text \<open>
  \<open>escapeRegExp\<close> puts a backslash (\<open>CHR 0x5C\<close>) in front of each of the characters
  \<open>. * + ? ^ $ { } ( ) | [ ]\<close> and of the backslash.
\<close>

definition escapeRegExp :: "string \<Rightarrow> string" where
  "escapeRegExp string =
     concat (map (\<lambda>c. if c \<in> set (''.*+?^${}()|[]'' @ [CHR 0x5C]) then [CHR 0x5C, c] else [c]) string)"

text \<open>
  The pattern \<open>new RegExp(`(${safeWord})`, 'gi')\<close> is one capturing group around the source
  \<open>safeWord\<close>. In a source where every syntax character has a backslash in front, each
  character stands for itself and a backslash with a character stands for that character:
  \<open>patternLiteral\<close> gives the characters the group matches, one after the other.
\<close>

fun patternLiteral :: "string \<Rightarrow> string" where
  "patternLiteral [] = []"
| "patternLiteral [c] = [c]"
| "patternLiteral (c # d # cs) =
     (if c = CHR 0x5C then d # patternLiteral cs else c # patternLiteral (d # cs))"

text \<open>The group matches at the head of the input, case ignored.\<close>

definition matchesAt :: "string \<Rightarrow> string \<Rightarrow> bool" where
  "matchesAt lit s =
     (length lit \<le> length s \<and> map canonicalize (take (length lit) s) = map canonicalize lit)"

text \<open>
  \<open>String.prototype.split\<close> with the pattern \<open>(lit)\<close>: the loop of the specification of
  ECMAScript, with \<open>piece\<close> the text between the last split point \<open>p\<close> and the position
  \<open>q\<close>, and the input from \<open>q\<close> on. A match at \<open>q\<close> that ends at \<open>p\<close> (an empty match
  right after a split point) is passed over; any other match ends the piece and adds the
  captured text. The limit of \<open>2^32 - 1\<close> pieces is left out.
\<close>

function splitLoop :: "string \<Rightarrow> string \<Rightarrow> string \<Rightarrow> string list" where
  "splitLoop lit piece [] = [piece]"
| "splitLoop lit piece (c # cs) =
     (if matchesAt lit (c # cs) \<and> (lit \<noteq> [] \<or> piece \<noteq> [])
      then piece # take (length lit) (c # cs) # splitLoop lit [] (drop (length lit) (c # cs))
      else splitLoop lit (piece @ [c]) cs)"
  by pat_completeness auto
termination
  by (relation "measure (\<lambda>(lit, piece, s). 2 * length s + (if piece = [] then 0 else 1))")
     (auto simp: matchesAt_def neq_Nil_conv)

text \<open>On the empty string the result is empty when the pattern matches it, and the string alone otherwise.\<close>

definition regexSplit :: "string \<Rightarrow> string \<Rightarrow> string list" where
  "regexSplit lit s =
     (if s = [] then (if matchesAt lit [] then [] else [s]) else splitLoop lit [] s)"

text \<open>The callback of \<open>parts.forEach\<close>, for one word and one part.\<close>

definition splitPart :: "string \<Rightarrow> part \<Rightarrow> part list" where
  "splitPart w part =
     (if hidden part then [part]
      else (let safeWord = escapeRegExp (trim w);
                pieces = regexSplit (patternLiteral safeWord) (text' part)
            in concat (map (\<lambda>s. if toLowerCase s = toLowerCase (trim w)
                                 then [\<lparr>text' = s, hidden = True, word = Some s\<rparr>]
                                 else if s \<noteq> [] then [\<lparr>text' = s, hidden = False, word = None\<rparr>]
                                 else []) pieces)))"

text \<open>The callback of \<open>hiddenWords.forEach\<close>: the parts after one more word.\<close>

definition hideWord :: "part list \<Rightarrow> string \<Rightarrow> part list" where
  "hideWord parts w = (if w = [] then parts else concat (map (splitPart w) parts))"

definition getParsedContent :: "ClozeCard option \<Rightarrow> part list" where
  "getParsedContent currentCard =
     (case currentCard of
        None \<Rightarrow> []
      | Some c \<Rightarrow>
          foldl hideWord [\<lparr>text' = fullText c, hidden = False, word = None\<rparr>] (hiddenWords c))"

section \<open>The test mode\<close>

record SummaryItem =
  question :: string
  userSelected :: "string option list"
  correctSelected :: "string option list"
  isCorrect :: bool
  explanation :: string

record Results =
  correct :: nat
  wrong :: nat

text \<open>
  The state cells of \<open>ExamTestMode\<close>. The score is a sum of steps of 1 and -0.5 from 0; the
  doubles hold these sums without rounding, and the cell is the rational number.
\<close>

record TestState =
  currentIndex :: nat
  selectedOptions :: "int list"
  isAnswered :: bool
  score :: rat
  results :: Results
  timeLeft :: jsnum
  summary :: "SummaryItem list"
  isSpeaking :: bool
  showSummary :: bool

text \<open>\<open>array[i]\<close>: \<open>undefined\<close> (\<open>None\<close>) out of range.\<close>

definition arrayAt :: "'a list \<Rightarrow> int \<Rightarrow> 'a option" where
  "arrayAt xs i = (if 0 \<le> i \<and> i < int (length xs) then Some (xs ! nat i) else None)"

text \<open>
  \<open>handleSubmit\<close>, on the question shown (\<open>currentQuestion\<close>) and the state cells; the
  result is the state after the updates the handler queues. A \<open>Set\<close> of numbers is the set
  of the elements of the array, and its \<open>size\<close> the cardinality. The button that calls the
  handler is disabled while no option is selected.
\<close>

definition handleSubmit :: "TestQuestion \<Rightarrow> ExamSettings \<Rightarrow> TestState \<Rightarrow> TestState" where
  "handleSubmit currentQuestion settings st =
     (if length (selectedOptions st) = 0 then st
      else
        (let correctSet = set (correctIndices currentQuestion);
             selectedSet = set (selectedOptions st);
             isCorrect = (card correctSet = card selectedSet \<and> (\<forall>x \<in> correctSet. x \<in> selectedSet));
             points = (if isCorrect then 1
                       else if negativeMarking settings = Some True then - (1 / 2) else 0)
         in st\<lparr>results :=
                 (if isCorrect then (results st)\<lparr>correct := correct (results st) + 1\<rparr>
                  else (results st)\<lparr>wrong := wrong (results st) + 1\<rparr>),
               TestState.score := TestState.score st + points,
               isAnswered := True,
               TestState.summary := TestState.summary st @
                 [\<lparr>SummaryItem.question = TestQuestion.question currentQuestion,
                   userSelected = map (arrayAt (options currentQuestion)) (selectedOptions st),
                   correctSelected =
                     map (arrayAt (options currentQuestion)) (correctIndices currentQuestion),
                   isCorrect = isCorrect,
                   explanation = TestQuestion.explanation currentQuestion\<rparr>]\<rparr>))"

text \<open>The branch of the component for a finished exam: the grade and \<open>isPass\<close>.\<close>

definition isFinished :: "TestQuestion list \<Rightarrow> TestState \<Rightarrow> bool" where
  "isFinished questions st = (length questions \<le> TestState.currentIndex st)"

definition grade :: "TestQuestion list \<Rightarrow> TestState \<Rightarrow> jsnum" where
  "grade questions st =
     (let maxScore = Fin (of_nat (length questions))
      in mathRound (mathMax (Fin 0) (jsMul (jsDiv (Fin (TestState.score st)) maxScore) (Fin 10))))"

definition isPass :: "TestQuestion list \<Rightarrow> TestState \<Rightarrow> bool" where
  "isPass questions st = jsGe (grade questions st) (Fin 5)"

section \<open>The open mode\<close>

record OpenSummaryItem =
  q :: string
  a :: string
  m :: string
  score :: jsnum

text \<open>The state cells of \<open>ExamOpenMode\<close>.\<close>

record OpenState =
  currentIndex :: nat
  userAnswer :: string
  evaluation :: "Evaluation option"
  showModelAnswer :: bool
  isEvaluating :: bool
  totalScore :: nat
  timeLeft :: jsnum
  summary :: "OpenSummaryItem list"
  isSpeaking :: bool

text \<open>
  \<open>handleCheck\<close>, on the question shown, the props of the component (\<open>settings\<close> is
  optional) and the state cells. The result is the state when the handler has finished,
  with the requests it has sent to the service.
\<close>

definition handleCheck ::
  "string option \<Rightarrow> (GenerateContentRequest \<Rightarrow> Evaluation option) \<Rightarrow>
   ExamSettings option \<Rightarrow> OpenQuestion \<Rightarrow> OpenState \<Rightarrow> OpenState \<times> GenerateContentRequest list" where
  "handleCheck apiKey service settings currentQuestion st =
     (if trim (userAnswer st) = [] then
        (st\<lparr>showModelAnswer := True,
            OpenState.summary := OpenState.summary st @
              [\<lparr>q = OpenQuestion.question currentQuestion, a = ''(Sin respuesta)'',
                m = modelAnswer currentQuestion, score = Fin 0\<rparr>]\<rparr>, [])
      else
        (case evaluateOpenAnswer apiKey service (OpenQuestion.question currentQuestion)
                (modelAnswer currentQuestion) (userAnswer st) None of
           (Inr result, sent) \<Rightarrow>
             (st\<lparr>evaluation := Some result,
                 totalScore := (if Evaluation.score result = Fin 1 then totalScore st + 1
                                else totalScore st),
                 OpenState.summary := OpenState.summary st @
                   [\<lparr>q = OpenQuestion.question currentQuestion, a = userAnswer st,
                     m = modelAnswer currentQuestion, score = Evaluation.score result\<rparr>],
                 isEvaluating := False\<rparr>, sent)
         | (Inl e, sent) \<Rightarrow>
             (st\<lparr>evaluation := Some \<lparr>Evaluation.score = Fin 0, feedback = ''Error al evaluar con IA.''\<rparr>,
                 isEvaluating := False\<rparr>, sent)))"

section \<open>The application\<close>

datatype Step = UPLOAD | SETTINGS | LOADING | EXAM | RESULTS

record AppState =
  step :: Step
  pdfText :: string
  settings :: ExamSettings
  testQuestions :: "TestQuestion list"
  clozeCards :: "ClozeCard list"
  openQuestions :: "OpenQuestion list"
  generatedImages :: "nat \<Rightarrow> string option"
  uploadedFiles :: "(string \<times> File) list option"

text \<open>The state cells of \<open>App\<close>.\<close>

record App =
  state :: AppState
  loadingMessage :: string
  isDarkMode :: bool
  isFullScreen :: bool
  zoomLevel :: rat
  backgroundImage :: "string option"

definition handleRestart :: "App \<Rightarrow> App" where
  "handleRestart app =
     app\<lparr>state := (state app)\<lparr>step := SETTINGS, testQuestions := [], clozeCards := [],
                                openQuestions := []\<rparr>\<rparr>"

section \<open>Example data\<close>

text \<open>
  An exam with negative marking whose settings ask for the strict level; a question with the
  correct options 0 and 2; a state of the test mode with a given selection; a question and a
  state of the open mode with the answer \<open>A\<close>; a source attribution and an uploaded
  file.
\<close>

definition exampleSettings :: ExamSettings where
  "exampleSettings =
     \<lparr>examType = TEST, questionCount = Fin 2, difficulty = MEDIUM, optionsCount = Some (Fin 3),
      allowMultipleCorrect = Some True, negativeMarking = Some True, maxClozeBlanks = None,
      autoRead = None, timeLimit = None, showSummary = None, showSourceFile = None,
      benevolence = Some STRICT, voiceURI = None\<rparr>"

definition exampleQuestion :: TestQuestion where
  "exampleQuestion =
     \<lparr>TestQuestion.question = ''Q'', options = [''a'', ''b'', ''c''], correctIndices = [0, 2],
      explanation = ''E'', sourceQuote = ''S'', sourceFile = None\<rparr>"

definition exampleTestState :: "int list \<Rightarrow> TestState" where
  "exampleTestState selected =
     \<lparr>TestState.currentIndex = 0, selectedOptions = selected, isAnswered = False, score = 0,
      results = \<lparr>correct = 0, wrong = 0\<rparr>, timeLeft = Fin 0, summary = [], isSpeaking = False,
      showSummary = False\<rparr>"

definition exampleOpenQuestion :: OpenQuestion where
  "exampleOpenQuestion = \<lparr>OpenQuestion.question = ''Q'', modelAnswer = ''M'', sourceFile = None\<rparr>"

definition exampleOpenState :: OpenState where
  "exampleOpenState =
     \<lparr>OpenState.currentIndex = 0, userAnswer = ''A'', evaluation = None, showModelAnswer = False,
      isEvaluating = False, totalScore = 0, timeLeft = Fin 0, summary = [], isSpeaking = False\<rparr>"

definition exampleAttribution :: string where
  "exampleAttribution = ''Tema1 (P'' @ [CHR 0xE1] @ ''g. 5)''"

definition exampleFile :: File where
  "exampleFile = \<lparr>fileName = ''tema1.pdf'', bytes = ''%PDF''\<rparr>"

section \<open>Properties\<close>

subsection \<open>Properties of the numbers\<close>

lemma overflowBound_numeral [code]:
  "overflowBound = 179769313486231590772930519078902473361797697894230657273430081157732675805500963132708477322407536021120113879871393357658789768814416622492847430639474124377767893424865485276302219601246094119453082952085005768838150682342462881473913110540827237163350510684586298239947245938479716304835356329624224137216"
  by (simp add: overflowBound_def)

lemma powi_diff: "(2::rat) powi (i - j) = 2 powi i / 2 powi j"
  by (rule power_int_diff) simp

lemma powi_add: "(2::rat) powi (i + j) = 2 powi i * 2 powi j"
  by (rule power_int_add) simp


lemma roundHalfEven_nonneg: "0 \<le> x \<Longrightarrow> 0 \<le> roundHalfEven x"
  unfolding roundHalfEven_def Let_def by auto


lemma roundHalfEven_ge: "of_int j \<le> x \<Longrightarrow> j \<le> roundHalfEven x"
proof -
  assume "of_int j \<le> x"
  then have "j \<le> \<lfloor>x\<rfloor>" by (simp add: le_floor_iff)
  moreover have "\<lfloor>x\<rfloor> \<le> roundHalfEven x"
    unfolding roundHalfEven_def Let_def by auto
  ultimately show ?thesis by simp
qed

text \<open>The binary exponent: \<open>2 powi ilog2 x \<le> x < 2 powi (ilog2 x + 1)\<close> for a positive \<open>x\<close>.\<close>

lemma ilog2_bounds:
  assumes "0 < x"
  shows "2 powi ilog2 x \<le> x" and "x < 2 powi (ilog2 x + 1)"
proof -
  obtain num den where pq: "quotient_of x = (num, den)" by (cases "quotient_of x")
  have q: "0 < den" using quotient_of_denom_pos [OF pq] .
  have x: "x = of_int num / of_int den" using quotient_of_div [OF pq] .
  have p: "0 < num" using assms q unfolding x by (simp add: zero_less_divide_iff)
  let ?k = "bitlen num - bitlen den"
  have p1: "1 \<le> bitlen num" using p by (simp add: bitlen_def floorlog_def)
  have q1: "1 \<le> bitlen den" using q by (simp add: bitlen_def floorlog_def)
  have lower: "(2::rat) powi (?k - 1) \<le> x"
  proof -
    have bp: "2 ^ nat (bitlen num - 1) \<le> num" using bitlen_bounds [OF p] by simp
    have bq: "den < 2 ^ nat (bitlen den)" using bitlen_bounds [OF q] by simp
    have "(2::rat) powi (bitlen num - 1) = 2 ^ nat (bitlen num - 1)"
      using p1 by (simp add: power_int_def)
    also have "\<dots> \<le> of_int num" using bp by (metis of_int_le_iff of_int_numeral of_int_power)
    finally have a: "(2::rat) powi (bitlen num - 1) \<le> of_int num" .
    have "(of_int den :: rat) \<le> 2 ^ nat (bitlen den)"
      using bq by (metis less_imp_le of_int_le_iff of_int_numeral of_int_power)
    also have "\<dots> = 2 powi (bitlen den)" using q1 by (simp add: power_int_def)
    finally have b: "(of_int den :: rat) \<le> 2 powi (bitlen den)" .
    have "?k - 1 = (bitlen num - 1) - bitlen den" by simp
    then have "(2::rat) powi (?k - 1) = 2 powi (bitlen num - 1) / 2 powi (bitlen den)"
      by (simp only: powi_diff)
    also have "\<dots> \<le> of_int num / of_int den"
      using a b q p by (intro frac_le) simp_all
    also have "\<dots> = x" by (simp only: x)
    finally show ?thesis .
  qed
  have upper: "x < (2::rat) powi (?k + 1)"
  proof -
    have bp: "num < 2 ^ nat (bitlen num)" using bitlen_bounds [OF p] by simp
    have bq: "2 ^ nat (bitlen den - 1) \<le> den" using bitlen_bounds [OF q] by simp
    have "(of_int num :: rat) < 2 ^ nat (bitlen num)"
      using bp by (metis of_int_less_iff of_int_numeral of_int_power)
    also have "\<dots> = 2 powi (bitlen num)" using p1 by (simp add: power_int_def)
    finally have a: "(of_int num :: rat) < 2 powi (bitlen num)" .
    have "(2::rat) powi (bitlen den - 1) = 2 ^ nat (bitlen den - 1)"
      using q1 by (simp add: power_int_def)
    also have "\<dots> \<le> of_int den" using bq by (metis of_int_le_iff of_int_numeral of_int_power)
    finally have b: "(2::rat) powi (bitlen den - 1) \<le> of_int den" .
    have "x = of_int num / of_int den" by (rule x)
    also have "\<dots> < 2 powi (bitlen num) / 2 powi (bitlen den - 1)"
      using a b q p by (intro frac_less) simp_all
    also have "\<dots> = 2 powi (bitlen num - (bitlen den - 1))"
      by (simp only: powi_diff)
    also have "bitlen num - (bitlen den - 1) = ?k + 1" by simp
    finally show ?thesis .
  qed
  show "2 powi ilog2 x \<le> x"
    using lower by (simp add: ilog2_def pq Let_def)
  show "x < 2 powi (ilog2 x + 1)"
    using upper by (simp add: ilog2_def pq Let_def not_le)
qed



lemma nearest_nonneg: "0 \<le> x \<Longrightarrow> 0 \<le> nearest x"
  by (simp add: nearest_def Let_def roundHalfEven_nonneg sgn_if)

lemma nearest_minus: "nearest (- x) = - nearest x"
  by (simp add: nearest_def Let_def sgn_minus)

lemma nearest_nonpos: "x \<le> 0 \<Longrightarrow> nearest x \<le> 0"
  using nearest_nonneg [of "- x"] by (simp add: nearest_minus)



lemma toDouble_0: "toDouble 0 = Fin 0"
  by (simp add: toDouble_def nearest_def overflowBound_def)



text \<open>Rounding keeps the sign.\<close>

lemma toDouble_nonneg:
  "0 \<le> x \<Longrightarrow> toDouble x = PosInf \<or> (\<exists>y. toDouble x = Fin y \<and> 0 \<le> y)"
  using nearest_nonneg [of x] by (auto simp: toDouble_def Let_def overflowBound_def)

lemma toDouble_nonpos:
  "x \<le> 0 \<Longrightarrow> toDouble x = NegInf \<or> (\<exists>y. toDouble x = Fin y \<and> y \<le> 0)"
  using nearest_nonpos [of x] by (auto simp: toDouble_def Let_def overflowBound_def)

text \<open>Rounding a value of the normal range does not leave its binade downwards.\<close>

lemma nearest_ge_pow:
  assumes "0 < x" and "- 1022 \<le> ilog2 x"
  shows "2 powi ilog2 x \<le> nearest x"
proof -
  define k where "k = ilog2 x"
  have e: "max (ilog2 \<bar>x\<bar> - 52) (- 1074) = k - 52"
    using assms by (simp add: k_def)
  have "(2::rat) powi 52 = 2 powi (k - (k - 52))" by simp
  also have "\<dots> = 2 powi k / 2 powi (k - 52)" by (rule powi_diff)
  also have "\<dots> \<le> x / 2 powi (k - 52)"
    using ilog2_bounds(1) [OF assms(1)] by (intro divide_right_mono) (simp_all add: k_def)
  finally have "of_int (2 ^ 52) \<le> x / 2 powi (k - 52)" by simp
  then have "2 ^ 52 \<le> roundHalfEven (x / 2 powi (k - 52))" by (rule roundHalfEven_ge)
  then have "(2::rat) ^ 52 \<le> of_int (roundHalfEven (x / 2 powi (k - 52)))"
    by (metis of_int_le_iff of_int_numeral of_int_power)
  then have "(2::rat) ^ 52 * 2 powi (k - 52)
      \<le> of_int (roundHalfEven (x / 2 powi (k - 52))) * 2 powi (k - 52)"
    by (intro mult_right_mono) simp_all
  moreover have "(2::rat) ^ 52 * 2 powi (k - 52) = 2 powi k"
    using powi_add [of 52 "k - 52"] by simp
  ultimately have "(2::rat) powi k
      \<le> of_int (roundHalfEven (x / 2 powi (k - 52))) * 2 powi (k - 52)"
    by (simp only:)
  moreover have "nearest x = of_int (roundHalfEven (x / 2 powi (k - 52))) * 2 powi (k - 52)"
    using assms(1) e by (simp add: nearest_def Let_def)
  ultimately show ?thesis by (simp only: k_def)
qed

lemma toDouble_overflow:
  assumes "2 ^ 1024 \<le> x"
  shows "toDouble x = PosInf"
proof -
  have x: "0 < x" using assms by (rule less_le_trans [rotated]) simp
  have "1024 \<le> ilog2 x"
  proof (rule ccontr)
    assume "\<not> 1024 \<le> ilog2 x"
    then have "ilog2 x + 1 \<le> 1024" by simp
    then have "(2::rat) powi (ilog2 x + 1) \<le> 2 powi 1024"
      by (intro power_int_increasing) simp_all
    with ilog2_bounds(2) [OF x] have "x < 2 powi 1024" by (rule less_le_trans)
    with assms show False by simp
  qed
  then have "(2::rat) powi 1024 \<le> 2 powi ilog2 x"
    by (intro power_int_increasing) simp_all
  also have "\<dots> \<le> nearest x"
    using x \<open>1024 \<le> ilog2 x\<close> by (intro nearest_ge_pow) simp_all
  finally have "overflowBound \<le> nearest x" by (simp add: overflowBound_def)
  then show ?thesis by (simp add: toDouble_def Let_def)
qed

text \<open>A page count of \<open>2 ^ 1024\<close> or more is read as \<open>Infinity\<close>.\<close>

lemma parseInt_overflow: "2 ^ 1024 \<le> mathInt digits \<Longrightarrow> parseInt digits = PosInf"
proof -
  assume "2 ^ 1024 \<le> mathInt digits"
  then have "(2::rat) ^ 1024 \<le> of_nat (mathInt digits)"
    by (metis of_nat_le_iff of_nat_numeral of_nat_power)
  then show ?thesis unfolding parseInt_def by (rule toDouble_overflow)
qed



subsection \<open>Properties of the distribution\<close>

lemma whileDocRegex_total:
  "\<exists>new. whileDocRegex s docs t = (docs @ new, foldl jsAdd t (map snd new))"
proof (induction s docs t rule: whileDocRegex.induct)
  case (1 s docs totalPages)
  show ?case
  proof (cases "docRegexExec s")
    case None
    then have "whileDocRegex s docs totalPages = (docs @ [], foldl jsAdd totalPages (map snd []))"
      by (simp add: whileDocRegex.simps [of s])
    then show ?thesis by blast
  next
    case (Some m)
    obtain name digits body rest where m: "m = (name, (digits, body), rest)"
      by (cases m) auto
    have e: "docRegexExec s = Some (name, (digits, body), rest)" using Some m by simp
    from "1.IH" [OF e refl refl] obtain new where
      "whileDocRegex rest (docs @ [(name, parseInt digits)]) (jsAdd totalPages (parseInt digits))
         = ((docs @ [(name, parseInt digits)]) @ new,
            foldl jsAdd (jsAdd totalPages (parseInt digits)) (map snd new))"
      by blast
    with e have "whileDocRegex s docs totalPages
        = (docs @ ((name, parseInt digits) # new),
           foldl jsAdd totalPages (map snd ((name, parseInt digits) # new)))"
      by (simp add: whileDocRegex.simps [of s])
    then show ?thesis by blast
  qed
qed

lemma whileOldDocRegex_total:
  "\<exists>new. whileOldDocRegex s docs t = (docs @ new, foldl jsAdd t (map snd new))"
proof (induction s docs t rule: whileOldDocRegex.induct)
  case (1 s docs totalLength)
  show ?case
  proof (cases "oldDocRegexExec s")
    case None
    then have "whileOldDocRegex s docs totalLength
        = (docs @ [], foldl jsAdd totalLength (map snd []))"
      by (simp add: whileOldDocRegex.simps [of s])
    then show ?thesis by blast
  next
    case (Some m)
    obtain name body rest where m: "m = (name, body, rest)"
      by (cases m) auto
    have e: "oldDocRegexExec s = Some (name, body, rest)" using Some m by simp
    let ?w = "Fin (of_nat (length body))"
    from "1.IH" [OF e refl] obtain new where
      "whileOldDocRegex rest (docs @ [(name, ?w)]) (jsAdd totalLength ?w)
         = ((docs @ [(name, ?w)]) @ new, foldl jsAdd (jsAdd totalLength ?w) (map snd new))"
      by blast
    with e have "whileOldDocRegex s docs totalLength
        = (docs @ ((name, ?w) # new), foldl jsAdd totalLength (map snd ((name, ?w) # new)))"
      by (simp add: whileOldDocRegex.simps [of s])
    then show ?thesis by blast
  qed
qed

lemma getQuestionCountsPerDocument_parsed:
  "getQuestionCountsPerDocument corpus tq =
     (if length (parsedDocuments corpus) \<le> 1 then []
      else forEachDoc (length (parsedDocuments corpus)) (totalWeight (parsedDocuments corpus))
             tq 0 (Fin 0) [] (parsedDocuments corpus))"
proof -
  have a: "snd (whileDocRegex corpus [] (Fin 0)) = totalWeight (fst (whileDocRegex corpus [] (Fin 0)))"
    using whileDocRegex_total [of corpus "[]" "Fin 0"] by (auto simp: totalWeight_def)
  have b: "snd (whileOldDocRegex corpus [] (Fin 0))
      = totalWeight (fst (whileOldDocRegex corpus [] (Fin 0)))"
    using whileOldDocRegex_total [of corpus "[]" "Fin 0"] by (auto simp: totalWeight_def)
  show ?thesis
    using a b
    by (cases "whileDocRegex corpus [] (Fin 0)"; cases "whileOldDocRegex corpus [] (Fin 0)")
       (auto simp: getQuestionCountsPerDocument_def parsedDocuments_def)
qed

lemma forEachDoc_append:
  "forEachDoc n W tq i dc res ds = res @ forEachDoc n W tq i dc [] ds"
proof (induction ds arbitrary: i dc res)
  case Nil
  then show ?case by simp
next
  case (Cons d ds)
  obtain name w where d: "d = (name, w)" by (cases d)
  show ?case
    unfolding d forEachDoc.simps Let_def
    by (subst Cons.IH, subst (2) Cons.IH) simp
qed

lemma forEachDoc_Cons:
  "forEachDoc n W tq i dc [] ((name, w) # ds) =
     \<lparr>docName = name, count = callbackCount n W tq i dc w\<rparr>
       # forEachDoc n W tq (Suc i) (jsAdd dc (callbackCount n W tq i dc w)) [] ds"
  by (simp add: callbackCount_def Let_def forEachDoc_append [of _ _ _ _ _ "[_]"])


lemma forEachDoc_names: "map docName (forEachDoc n W tq i dc [] ds) = map fst ds"
  by (induction ds arbitrary: i dc) (auto simp: forEachDoc_Cons simp del: forEachDoc.simps(2))





text \<open>
  The model rounds as the doubles of the code do: two documents of 15 and 7 pages and 11
  questions get 7 and 4, since \<open>(15 / 22) * 11\<close> is 7.499999999999999 in doubles.
\<close>

lemma getQuestionCountsPerDocument_rounds_doubles:
  "getQuestionCountsPerDocument
     (documentText ''a.pdf'' ''15'' ''x'' @ documentText ''b.pdf'' ''7'' ''y'') (Fin 11)
   = [\<lparr>docName = ''a.pdf'', count = Fin 7\<rparr>, \<lparr>docName = ''b.pdf'', count = Fin 4\<rparr>]"
proof -
  have parse: "whileDocRegex
      (documentText ''a.pdf'' ''15'' ''x'' @ documentText ''b.pdf'' ''7'' ''y'') [] (Fin 0)
    = ([(''a.pdf'', Fin 15), (''b.pdf'', Fin 7)], Fin 22)"
    by code_simp
  have share: "mathRound (jsMul (jsDiv (Fin 15) (Fin 22)) (Fin 11)) = Fin 7"
    by code_simp
  have rest: "jsSub (Fin 11) (jsAdd (Fin 0) (Fin 7)) = Fin 4"
    by code_simp
  show ?thesis
    unfolding getQuestionCountsPerDocument_def parse
    by (simp add: share rest del: jsAdd.simps jsMul.simps jsDiv.simps mathRound.simps)
qed

text \<open>
  With two page counts read as \<open>Infinity\<close> the total is \<open>Infinity\<close> and the counts are NaN:
  \<open>Infinity / Infinity\<close> is NaN, which is not 0, and the last count is a difference with NaN.
\<close>

lemma forEachDoc_infinite_pages:
  "forEachDoc 3 PosInf (Fin 3) 0 (Fin 0) [] [(n1, PosInf), (n2, PosInf), (n3, Fin 1)]
     = [\<lparr>docName = n1, count = NaN\<rparr>, \<lparr>docName = n2, count = NaN\<rparr>,
        \<lparr>docName = n3, count = NaN\<rparr>]"
  by (simp add: jsSub_def)

text \<open>
  Claim C1, at a corpus of three documents of 100, 1 and 1 pages and 3 questions: the first
  document takes round(3 * 100 / 102) = 3 questions, the second has a share of 0 and is
  given 1, and the last is left with 3 - 4 = -1 questions, so not every count is at least 0.
\<close>

theorem C1_last_count_negative:
  "getQuestionCountsPerDocument
     (documentText ''a.pdf'' ''100'' ''x'' @ documentText ''b.pdf'' ''1'' ''y''
        @ documentText ''c.pdf'' ''1'' ''z'') (Fin 3)
   = [\<lparr>docName = ''a.pdf'', count = Fin 3\<rparr>, \<lparr>docName = ''b.pdf'', count = Fin 1\<rparr>,
      \<lparr>docName = ''c.pdf'', count = Fin (- 1)\<rparr>]
   \<and> \<not> jsGe (count (last (getQuestionCountsPerDocument
       (documentText ''a.pdf'' ''100'' ''x'' @ documentText ''b.pdf'' ''1'' ''y''
          @ documentText ''c.pdf'' ''1'' ''z'') (Fin 3)))) (Fin 0)"
proof -
  have parse: "whileDocRegex
      (documentText ''a.pdf'' ''100'' ''x'' @ documentText ''b.pdf'' ''1'' ''y''
         @ documentText ''c.pdf'' ''1'' ''z'') [] (Fin 0)
    = ([(''a.pdf'', Fin 100), (''b.pdf'', Fin 1), (''c.pdf'', Fin 1)], Fin 102)"
    by code_simp
  have share1: "mathRound (jsMul (jsDiv (Fin 100) (Fin 102)) (Fin 3)) = Fin 3"
    by code_simp
  have share2: "mathRound (jsMul (jsDiv (Fin 1) (Fin 102)) (Fin 3)) = Fin 0"
    by code_simp
  have rest: "jsSub (Fin 3) (jsAdd (jsAdd (Fin 0) (Fin 3)) (Fin 1)) = Fin (- 1)"
    by code_simp
  have result: "getQuestionCountsPerDocument
     (documentText ''a.pdf'' ''100'' ''x'' @ documentText ''b.pdf'' ''1'' ''y''
        @ documentText ''c.pdf'' ''1'' ''z'') (Fin 3)
   = [\<lparr>docName = ''a.pdf'', count = Fin 3\<rparr>, \<lparr>docName = ''b.pdf'', count = Fin 1\<rparr>,
      \<lparr>docName = ''c.pdf'', count = Fin (- 1)\<rparr>]"
    unfolding getQuestionCountsPerDocument_def parse
    by (simp add: share1 share2 rest del: jsAdd.simps jsMul.simps jsDiv.simps mathRound.simps)
  show ?thesis unfolding result by simp
qed



text \<open>
  Claim C4: when the parser finds no document or one document (by the pattern with the page
  count, or by the older pattern when the first finds none), the result is empty, whatever
  the number of questions.
\<close>

theorem C4_fewer_than_two_documents_empty:
  "length (parsedDocuments corpus) \<le> 1 \<Longrightarrow> getQuestionCountsPerDocument corpus totalItems = []"
  by (simp add: getQuestionCountsPerDocument_parsed)

theorem C4_fewer_than_two_documents_empty_witness:
  "length (parsedDocuments (documentText ''a.pdf'' ''3'' ''x'')) \<le> 1
   \<and> getQuestionCountsPerDocument (documentText ''a.pdf'' ''3'' ''x'') (Fin 5) = []"
proof -
  have parse: "whileDocRegex (documentText ''a.pdf'' ''3'' ''x'') [] (Fin 0)
      = ([(''a.pdf'', Fin 3)], Fin 3)"
    by code_simp
  have one: "length (parsedDocuments (documentText ''a.pdf'' ''3'' ''x'')) \<le> 1"
    unfolding parsedDocuments_def parse by simp
  from one C4_fewer_than_two_documents_empty [OF one, of "Fin 5"] show ?thesis by blast
qed

subsection \<open>Properties of the parsed content of a cloze card\<close>

text \<open>The pattern built from an escaped word matches the characters of the word and nothing else.\<close>

lemma patternLiteral_escapeRegExp: "patternLiteral (escapeRegExp w) = w"
proof (induction w)
  case Nil
  then show ?case by (simp add: escapeRegExp_def)
next
  case (Cons c cs)
  have e: "escapeRegExp (c # cs) =
      (if c \<in> set (''.*+?^${}()|[]'' @ [CHR 0x5C]) then [CHR 0x5C, c] else [c]) @ escapeRegExp cs"
    by (simp add: escapeRegExp_def)
  show ?case
  proof (cases "c \<in> set (''.*+?^${}()|[]'' @ [CHR 0x5C])")
    case True
    with e Cons.IH show ?thesis by simp
  next
    case False
    then have nb: "c \<noteq> CHR 0x5C" by auto
    from False e have "escapeRegExp (c # cs) = c # escapeRegExp cs" by simp
    with nb Cons.IH show ?thesis
      by (cases "escapeRegExp cs") auto
  qed
qed

lemma splitLoop_concat: "concat (splitLoop lit piece s) = piece @ s"
  by (induction lit piece s rule: splitLoop.induct) auto

lemma regexSplit_concat: "concat (regexSplit lit s) = s"
  by (simp add: regexSplit_def splitLoop_concat)

lemma pieces_concat:
  "concat (map text' (concat (map (\<lambda>s. if P s then [\<lparr>text' = s, hidden = True, word = Some s\<rparr>]
        else if s \<noteq> [] then [\<lparr>text' = s, hidden = False, word = None\<rparr>] else []) pieces)))
   = concat pieces"
  by (induction pieces) auto

lemma splitPart_concat: "concat (map text' (splitPart w p)) = text' p"
  by (simp add: splitPart_def Let_def pieces_concat regexSplit_concat)

lemma hideWord_concat: "concat (map text' (hideWord parts w)) = concat (map text' parts)"
  by (induction parts) (auto simp: hideWord_def splitPart_concat)

lemma foldl_hideWord_concat:
  "concat (map text' (foldl hideWord parts ws)) = concat (map text' parts)"
  by (induction ws arbitrary: parts) (auto simp: hideWord_concat)

text \<open>
  Claim C2: the texts of the parts of \<open>getParsedContent\<close>, one after the other, are the
  full text of the card, for every full text and every list of hidden words.
\<close>

theorem C2_segments_rebuild_fullText:
  "concat (map text' (getParsedContent (Some c))) = fullText c"
  by (simp add: getParsedContent_def foldl_hideWord_concat)

text \<open>The empty word changes nothing.\<close>

lemma hideWord_empty: "hideWord parts [] = parts"
  by (simp add: hideWord_def)

text \<open>
  Claim C7, at the full text \<open>ab\<close> and the hidden words \<open>[" "]\<close>: the blank word is not
  empty, so it passes the test \<open>if (!word) return\<close>; its trimmed form is empty, the pattern
  \<open>()\<close> splits the text between every two characters and each empty capture becomes a
  hidden part. Without the word the text is one visible part.
\<close>

theorem C7_blank_word_splits_text:
  "getParsedContent (Some \<lparr>fullText = ''ab'', hiddenWords = ['' ''], imagePrompt = [],
       sourceFile = None\<rparr>)
     = [\<lparr>text' = ''a'', hidden = False, word = None\<rparr>,
        \<lparr>text' = [], hidden = True, word = Some []\<rparr>,
        \<lparr>text' = ''b'', hidden = False, word = None\<rparr>]
   \<and> getParsedContent (Some \<lparr>fullText = ''ab'', hiddenWords = [], imagePrompt = [],
       sourceFile = None\<rparr>)
     = [\<lparr>text' = ''ab'', hidden = False, word = None\<rparr>]
   \<and> trim '' '' = []"
  by code_simp

lemma splitPart_hidden:
  assumes "pt \<in> set (splitPart w p)" and "hidden pt"
  shows "pt = p \<and> hidden p \<or> toLowerCase (text' pt) = toLowerCase (trim w)"
  using assms by (auto simp: splitPart_def Let_def split: if_splits)

lemma hideWord_hidden:
  assumes "pt \<in> set (hideWord parts w)" and "hidden pt"
  shows "pt \<in> set parts \<or> toLowerCase (text' pt) = toLowerCase (trim w)"
  using assms by (auto simp: hideWord_def split: if_splits dest: splitPart_hidden)

lemma foldl_hideWord_hidden:
  assumes "pt \<in> set (foldl hideWord parts ws)" and "hidden pt"
  shows "pt \<in> set parts \<or> (\<exists>w \<in> set ws. toLowerCase (text' pt) = toLowerCase (trim w))"
  using assms
proof (induction ws arbitrary: parts)
  case Nil
  then show ?case by simp
next
  case (Cons w ws)
  from Cons.IH [of "hideWord parts w"] Cons.prems
  have "pt \<in> set (hideWord parts w) \<or> (\<exists>w \<in> set ws. toLowerCase (text' pt) = toLowerCase (trim w))"
    by simp
  then show ?case
    using hideWord_hidden [of pt parts w] Cons.prems(2) by auto
qed

text \<open>
  Claim C10: the text of every hidden part of \<open>getParsedContent\<close> is, with the case
  ignored (\<open>toLowerCase\<close> on both sides, as the code compares), the trimmed form of one of
  the hidden words of the card.
\<close>

theorem C10_hidden_from_requested_terms:
  "\<forall>p \<in> set (getParsedContent (Some c)).
     hidden p \<longrightarrow> (\<exists>w \<in> set (hiddenWords c). toLowerCase (text' p) = toLowerCase (trim w))"
proof (intro ballI impI)
  fix p
  assume p: "p \<in> set (getParsedContent (Some c))" and h: "hidden p"
  from p have "p \<in> set (foldl hideWord [\<lparr>text' = fullText c, hidden = False, word = None\<rparr>] (hiddenWords c))"
    by (simp add: getParsedContent_def)
  from foldl_hideWord_hidden [OF this h] h
  show "\<exists>w \<in> set (hiddenWords c). toLowerCase (text' p) = toLowerCase (trim w)"
    by auto
qed

theorem C10_hidden_from_requested_terms_witness:
  "\<lparr>text' = ''Sol'', hidden = True, word = Some ''Sol''\<rparr>
     \<in> set (getParsedContent (Some \<lparr>fullText = ''El Sol es una Estrella.'',
            hiddenWords = [''sol'', ''estrella''], imagePrompt = [], sourceFile = None\<rparr>))
   \<and> (\<exists>w \<in> set [''sol'', ''estrella'']. toLowerCase ''Sol'' = toLowerCase (trim w))"
proof -
  let ?c = "\<lparr>fullText = ''El Sol es una Estrella.'', hiddenWords = [''sol'', ''estrella''],
    imagePrompt = [], sourceFile = None\<rparr>"
  let ?p = "\<lparr>text' = ''Sol'', hidden = True, word = Some ''Sol''\<rparr>"
  have parts: "getParsedContent (Some ?c)
      = [\<lparr>text' = ''El '', hidden = False, word = None\<rparr>, ?p,
         \<lparr>text' = '' es una '', hidden = False, word = None\<rparr>,
         \<lparr>text' = ''Estrella'', hidden = True, word = Some ''Estrella''\<rparr>,
         \<lparr>text' = ''.'', hidden = False, word = None\<rparr>]"
    by code_simp
  then have mem: "?p \<in> set (getParsedContent (Some ?c))" by simp
  from C10_hidden_from_requested_terms [of ?c] mem
  have "hidden ?p \<longrightarrow> (\<exists>w \<in> set (hiddenWords ?c). toLowerCase (text' ?p) = toLowerCase (trim w))"
    by blast
  then have "\<exists>w \<in> set [''sol'', ''estrella'']. toLowerCase ''Sol'' = toLowerCase (trim w)"
    by simp
  with mem show ?thesis by blast
qed

subsection \<open>Properties of the test mode\<close>

lemma sets_equal_iff:
  "(card (set ys) = card (set xs) \<and> (\<forall>x \<in> set ys. x \<in> set xs)) = (set xs = set ys)"
proof
  assume a: "card (set ys) = card (set xs) \<and> (\<forall>x \<in> set ys. x \<in> set xs)"
  then have "set ys \<subseteq> set xs" by blast
  with a have "set ys = set xs" by (simp add: card_subset_eq)
  then show "set xs = set ys" by simp
next
  assume "set xs = set ys"
  then show "card (set ys) = card (set xs) \<and> (\<forall>x \<in> set ys. x \<in> set xs)" by simp
qed

lemma mathMax_toDouble_nonneg: "0 \<le> x \<Longrightarrow> mathMax (Fin 0) (toDouble x) = toDouble x"
  using toDouble_nonneg [of x] by (auto simp: max_def)

lemma mathMax_toDouble_nonpos: "x \<le> 0 \<Longrightarrow> mathMax (Fin 0) (toDouble x) = Fin 0"
  using toDouble_nonpos [of x] by (auto simp: max_def)

lemma grade_formula:
  assumes "qs \<noteq> [] \<or> 0 \<le> TestState.score s"
  shows "grade qs s =
    mathRound (jsMul (jsDiv (mathMax (Fin 0) (Fin (TestState.score s))) (Fin (of_nat (length qs))))
      (Fin 10))"
proof (cases "qs = []")
  case True
  with assms have "0 \<le> TestState.score s" by simp
  with True show ?thesis by (simp add: grade_def max_def)
next
  case False
  then have n: "0 < (of_nat (length qs) :: rat)" by simp
  define x where "x = TestState.score s / of_nat (length qs)"
  have div: "jsDiv (Fin (TestState.score s)) (Fin (of_nat (length qs))) = toDouble x"
    using n by (simp add: x_def)
  show ?thesis
  proof (cases "0 \<le> TestState.score s")
    case True
    with n have x0: "0 \<le> x" by (simp add: x_def)
    have "mathMax (Fin 0) (jsMul (toDouble x) (Fin 10)) = jsMul (toDouble x) (Fin 10)"
      using toDouble_nonneg [OF x0]
    proof
      assume "toDouble x = PosInf"
      then show ?thesis by simp
    next
      assume "\<exists>y. toDouble x = Fin y \<and> 0 \<le> y"
      then obtain y where y: "toDouble x = Fin y" "0 \<le> y" by blast
      then have "0 \<le> y * 10" by simp
      then show ?thesis by (simp add: y(1) mathMax_toDouble_nonneg)
    qed
    with True show ?thesis
      by (simp add: grade_def div max_def del: jsDiv.simps)
  next
    case False
    with n have x0: "x \<le> 0" by (simp add: x_def divide_le_0_iff)
    have "mathMax (Fin 0) (jsMul (toDouble x) (Fin 10)) = Fin 0"
      using toDouble_nonpos [OF x0]
    proof
      assume "toDouble x = NegInf"
      then show ?thesis by simp
    next
      assume "\<exists>y. toDouble x = Fin y \<and> y \<le> 0"
      then obtain y where y: "toDouble x = Fin y" "y \<le> 0" by blast
      then have "y * 10 \<le> 0" by simp
      then show ?thesis by (simp add: y(1) mathMax_toDouble_nonpos)
    qed
    moreover have "jsMul (jsDiv (Fin 0) (Fin (of_nat (length qs)))) (Fin 10) = Fin 0"
      using n by (simp add: toDouble_0)
    ultimately show ?thesis
      using False by (simp add: grade_def div max_def del: jsDiv.simps jsMul.simps)
  qed
qed

text \<open>
  Claim C5: a response (a selection that is not empty) is scored correct when the set of
  the selected indices is the set of the correct indices, and only then; it adds 1 point when
  correct, and 0 points, or -0.5 with negative marking, when not; the counter of the correct
  or of the wrong responses goes up by one. The grade is
  round(max(0, score) / itemCount * 10), and the exam is passed when the grade is at least 5.
  The grade is stated for the states an exam can reach: there are questions or the score is
  not negative.
\<close>

theorem C5_test_scoring:
  assumes "selectedOptions st \<noteq> []"
    and "qs \<noteq> [] \<or> 0 \<le> TestState.score s"
  shows "(isCorrect (last (TestState.summary (handleSubmit cq cfg st)))
            \<longleftrightarrow> set (selectedOptions st) = set (correctIndices cq))
    \<and> TestState.score (handleSubmit cq cfg st) = TestState.score st +
          (if set (selectedOptions st) = set (correctIndices cq) then 1
           else if negativeMarking cfg = Some True then - (1 / 2) else 0)
    \<and> results (handleSubmit cq cfg st) =
          (if set (selectedOptions st) = set (correctIndices cq)
           then (results st)\<lparr>correct := correct (results st) + 1\<rparr>
           else (results st)\<lparr>wrong := wrong (results st) + 1\<rparr>)
    \<and> grade qs s =
          mathRound (jsMul (jsDiv (mathMax (Fin 0) (Fin (TestState.score s)))
            (Fin (of_nat (length qs)))) (Fin 10))
    \<and> (isPass qs s \<longleftrightarrow> jsGe (grade qs s) (Fin 5))"
proof -
  have eq: "(card (set (correctIndices cq)) = card (set (selectedOptions st))
      \<and> (\<forall>x \<in> set (correctIndices cq). x \<in> set (selectedOptions st)))
    = (set (selectedOptions st) = set (correctIndices cq))"
    by (rule sets_equal_iff)
  have a: "isCorrect (last (TestState.summary (handleSubmit cq cfg st)))
      \<longleftrightarrow> set (selectedOptions st) = set (correctIndices cq)"
    using assms(1) by (simp add: handleSubmit_def Let_def eq)
  have b: "TestState.score (handleSubmit cq cfg st) = TestState.score st +
      (if set (selectedOptions st) = set (correctIndices cq) then 1
       else if negativeMarking cfg = Some True then - (1 / 2) else 0)"
    using assms(1) by (simp add: handleSubmit_def Let_def eq)
  have c: "isPass qs s \<longleftrightarrow> jsGe (grade qs s) (Fin 5)"
    by (simp add: isPass_def)
  have d: "results (handleSubmit cq cfg st) =
      (if set (selectedOptions st) = set (correctIndices cq)
       then (results st)\<lparr>correct := correct (results st) + 1\<rparr>
       else (results st)\<lparr>wrong := wrong (results st) + 1\<rparr>)"
    using assms(1) by (simp add: handleSubmit_def Let_def eq)
  from a b c d grade_formula [OF assms(2)] show ?thesis by blast
qed

theorem C5_test_scoring_witness:
  "TestState.score (handleSubmit exampleQuestion exampleSettings (exampleTestState [2, 0])) = 1
   \<and> TestState.score (handleSubmit exampleQuestion exampleSettings (exampleTestState [0])) = - (1 / 2)
   \<and> grade [exampleQuestion, exampleQuestion]
        (handleSubmit exampleQuestion exampleSettings (exampleTestState [2, 0])) = Fin 5
   \<and> isPass [exampleQuestion, exampleQuestion]
        (handleSubmit exampleQuestion exampleSettings (exampleTestState [2, 0]))"
proof -
  let ?qs = "[exampleQuestion, exampleQuestion]"
  let ?s = "handleSubmit exampleQuestion exampleSettings (exampleTestState [2, 0])"
  have sel1: "selectedOptions (exampleTestState [2, 0]) \<noteq> []"
    and sel2: "selectedOptions (exampleTestState [0]) \<noteq> []"
    by (simp_all add: exampleTestState_def)
  have qs: "?qs \<noteq> [] \<or> 0 \<le> TestState.score ?s" by simp
  note r1 = C5_test_scoring [OF sel1 qs, of exampleQuestion exampleSettings]
  note r2 = C5_test_scoring [OF sel2 qs, of exampleQuestion exampleSettings]
  have same: "set (selectedOptions (exampleTestState [2, 0])) = set (correctIndices exampleQuestion)"
    by (auto simp: exampleTestState_def exampleQuestion_def)
  have other: "set (selectedOptions (exampleTestState [0])) \<noteq> set (correctIndices exampleQuestion)"
    by (auto simp: exampleTestState_def exampleQuestion_def)
  have neg: "negativeMarking exampleSettings = Some True"
    by (simp add: exampleSettings_def)
  have s1: "TestState.score ?s = 1"
    using r1 same by (simp add: exampleTestState_def)
  have s2: "TestState.score (handleSubmit exampleQuestion exampleSettings (exampleTestState [0]))
      = - (1 / 2)"
    using r2 other neg by (simp add: exampleTestState_def)
  have half: "mathRound (jsMul (jsDiv (mathMax (Fin 0) (Fin 1)) (Fin (of_nat (length ?qs))))
      (Fin 10)) = Fin 5"
    by code_simp
  have g: "grade ?qs ?s = Fin 5"
    using r1 by (simp only: s1 half)
  have p: "isPass ?qs ?s"
    using r1 by (simp only: g jsGe.simps)
  from s1 s2 g p show ?thesis by blast
qed

subsection \<open>Properties of the open mode\<close>

text \<open>The instructions of two levels are different texts.\<close>

lemma benevolenceInstruction_differ:
  "benevolenceInstruction NORMAL \<noteq> benevolenceInstruction STRICT"
  by simp

text \<open>
  With a key and an answer that is not blank, \<open>handleCheck\<close> sends one request, the one
  that \<open>evaluateOpenAnswer\<close> builds when its fourth argument is left out; the settings of
  the exam have no part in it.
\<close>

lemma handleCheck_request:
  assumes "trim (userAnswer st) \<noteq> []" and "apiKey = Some k" and "k \<noteq> []"
  shows "snd (handleCheck apiKey service cfg cq st) =
    [evaluateOpenAnswerRequest (OpenQuestion.question cq) (modelAnswer cq) (userAnswer st) None]"
  using assms
  by (simp add: handleCheck_def evaluateOpenAnswer_def Let_def split: option.splits)

text \<open>
  Claim C6, at an exam whose settings ask for the strict level: \<open>handleCheck\<close> calls
  \<open>evaluateOpenAnswer\<close> with three arguments, so the request it sends has the instruction
  of the default level \<open>NORMAL\<close>, which is not the request for the level of the settings.
\<close>

theorem C6_request_has_default_benevolence:
  "benevolence exampleSettings = Some STRICT
   \<and> snd (handleCheck (Some ''key'') (\<lambda>request. None) (Some exampleSettings)
        exampleOpenQuestion exampleOpenState)
     = [evaluateOpenAnswerRequest ''Q'' ''M'' ''A'' (Some NORMAL)]
   \<and> evaluateOpenAnswerRequest ''Q'' ''M'' ''A'' (Some NORMAL)
     \<noteq> evaluateOpenAnswerRequest ''Q'' ''M'' ''A'' (benevolence exampleSettings)"
proof -
  have a: "benevolence exampleSettings = Some STRICT"
    by (simp add: exampleSettings_def)
  have nonblank: "trim (userAnswer exampleOpenState) \<noteq> []"
    by (simp add: exampleOpenState_def trim_def isWhiteSpace_def)
  have b: "snd (handleCheck (Some ''key'') (\<lambda>request. None) (Some exampleSettings)
        exampleOpenQuestion exampleOpenState)
     = [evaluateOpenAnswerRequest ''Q'' ''M'' ''A'' (Some NORMAL)]"
    using nonblank
    by (simp add: handleCheck_def evaluateOpenAnswer_def Let_def evaluateOpenAnswerRequest_def
        exampleOpenQuestion_def exampleOpenState_def)
  have c: "evaluateOpenAnswerRequest ''Q'' ''M'' ''A'' (Some NORMAL)
     \<noteq> evaluateOpenAnswerRequest ''Q'' ''M'' ''A'' (benevolence exampleSettings)"
    unfolding a evaluateOpenAnswerRequest_def evaluationPrompt_def
    using benevolenceInstruction_differ by simp
  from a b c show ?thesis by blast
qed

subsection \<open>Properties of the links\<close>

text \<open>
  For an attribution that matches the pattern, the test mode and the cloze mode look the
  file up by the exact name, then by the base name, and show plain text when both fail; the
  open mode looks it up by the exact name only.
\<close>

lemma createPDFLink_lookup_order:
  assumes "source \<noteq> []" and "sourceFileMatch source = Some (filename, pageNum)"
  shows "createPDFLink createObjectURL (Some files) (Some source) =
    (case map_of files (trim filename) of
       Some f \<Rightarrow> \<lparr>url = Some (createObjectURL f @ ''#page='' @ pageNum), display = source\<rparr>
     | None \<Rightarrow>
         (case findByBaseName (toLowerCase (replaceExtension (trim filename))) files of
            Some f \<Rightarrow> \<lparr>url = Some (createObjectURL f @ ''#page='' @ pageNum), display = source\<rparr>
          | None \<Rightarrow> \<lparr>url = None, display = source\<rparr>))"
  using assms by (simp add: createPDFLink_def Let_def split: option.splits)

lemma createPDFLinkOpen_exact_only:
  assumes "source \<noteq> []" and "sourceFileMatch source = Some (filename, pageNum)"
  shows "createPDFLinkOpen createObjectURL (Some files) (Some source) =
    (case map_of files (trim filename) of
       Some f \<Rightarrow> \<lparr>url = Some (createObjectURL f @ ''#page='' @ pageNum), display = source\<rparr>
     | None \<Rightarrow> \<lparr>url = None, display = source\<rparr>)"
  using assms by (simp add: createPDFLinkOpen_def split: option.splits)

text \<open>
  Claim C8, at the attribution \<open>Tema1 (Pag. 5)\<close> (with the accent) and the uploaded file \<open>tema1.pdf\<close>: no
  file has the exact name \<open>Tema1\<close>; the test mode (and the cloze mode, with the same
  function) then finds the file by its base name in small letters and gives a link, while
  the open mode has no second lookup and shows the attribution as plain text.
\<close>

theorem C8_open_mode_has_no_second_lookup:
  "createPDFLink createObjectURL (Some [(''tema1.pdf'', exampleFile)]) (Some exampleAttribution)
     = \<lparr>url = Some (createObjectURL exampleFile @ ''#page=5''), display = exampleAttribution\<rparr>
   \<and> createPDFLinkOpen createObjectURL (Some [(''tema1.pdf'', exampleFile)]) (Some exampleAttribution)
     = \<lparr>url = None, display = exampleAttribution\<rparr>"
proof -
  have ne: "exampleAttribution \<noteq> []"
    by (simp add: exampleAttribution_def)
  have found: "sourceFileMatch exampleAttribution = Some (''Tema1'', ''5'')"
    by code_simp
  have trimmed: "trim ''Tema1'' = ''Tema1''"
    by code_simp
  have base: "toLowerCase (replaceExtension ''Tema1'') = ''tema1''"
    "toLowerCase (replaceExtension ''tema1.pdf'') = ''tema1''"
    by code_simp+
  show ?thesis
    by (simp add: createPDFLink_def createPDFLinkOpen_def ne found trimmed base Let_def
        del: replaceExtension.simps)
qed

subsection \<open>Properties of the application\<close>

text \<open>
  Claim C9: \<open>handleRestart\<close> sets the step to \<open>SETTINGS\<close> and empties the test questions,
  the cloze cards and the open questions; the text of the corpus, the uploaded files, the
  settings, the generated images, the background image and every other state cell of the
  application are as before.
\<close>

theorem C9_restart_frame:
  "step (state (handleRestart app)) = SETTINGS
   \<and> testQuestions (state (handleRestart app)) = []
   \<and> clozeCards (state (handleRestart app)) = []
   \<and> openQuestions (state (handleRestart app)) = []
   \<and> pdfText (state (handleRestart app)) = pdfText (state app)
   \<and> uploadedFiles (state (handleRestart app)) = uploadedFiles (state app)
   \<and> settings (state (handleRestart app)) = settings (state app)
   \<and> generatedImages (state (handleRestart app)) = generatedImages (state app)
   \<and> backgroundImage (handleRestart app) = backgroundImage app
   \<and> loadingMessage (handleRestart app) = loadingMessage app
   \<and> isDarkMode (handleRestart app) = isDarkMode app
   \<and> isFullScreen (handleRestart app) = isFullScreen app
   \<and> zoomLevel (handleRestart app) = zoomLevel app"
  by (simp add: handleRestart_def)

end
